theory Spec2Isabelle
  imports Main
begin

section \<open>Data model of \<open>service/http_protocol.py\<close>\<close>

text \<open>
  Python \<open>bytes\<close> are lists of 8-bit characters. The exceptions are the subclasses of
  \<open>Exception\<close> that the module or the libraries it calls can raise; \<open>WaitTimeout\<close> is the
  one imported from \<open>.state\<close>.
\<close>

type_synonym bytes = string

datatype exn =
    WaitTimeout
  | ValueError
  | IndexError
  | KeyError
  | TypeError
  | AttributeError
  | UnicodeDecodeError
  | UnicodeEncodeError
  | JSONDecodeError
  | RemoteProtocolError
  | LocalProtocolError
  | RuntimeError
  | OtherException string

text \<open>
  The events of \<open>h11\<close>: what \<open>next_event\<close> hands out (together with the two sentinels
  \<open>NEED_DATA\<close> and \<open>PAUSED\<close>) and what \<open>send\<close> accepts. Of a \<open>Request\<close> the module reads
  only \<open>method\<close> and \<open>target\<close>; of a \<open>Response\<close> it sets \<open>status_code\<close> and \<open>headers\<close>.
\<close>

datatype h11_event =
    Request bytes bytes
  | Response nat "(bytes \<times> bytes) list"
  | Data bytes
  | EndOfMessage
  | ConnectionClosed
  | NEED_DATA
  | PAUSED

datatype RequestState = WAITING_HEADERS | WAITING_BODY

text \<open>
  The coroutines handed to \<open>asyncio.ensure_future\<close> with \<open>_on_get_done\<close> as done-callback.
  The user name is passed as bytes, the delivery tag as an integer, queue and exchange
  as decoded text.
\<close>

datatype 'u wait_call =
    wait_authentication_performed_on bytes
  | wait_message_acknoledged int
  | wait_queue_bound 'u 'u

text \<open>What \<open>future.result()\<close> does in the done-callback: return a value or raise.\<close>

datatype future_result = Returned bool | Raised exn

record Transport =
  written :: "bytes list"
  closed :: bool

text \<open>
  The fields of \<open>HTTPProtocol\<close> after \<open>connection_made\<close>; \<open>futures\<close> lists the waits
  scheduled on the event loop. Leading underscores of the source's names are dropped,
  and \<open>_method\<close> is \<open>req_method\<close>.
\<close>

record ('p, 'g, 'u) HTTPProtocol =
  transport :: Transport
  global_state :: 'g
  http_parser :: 'p
  state :: RequestState
  req_method :: "bytes option"
  target :: "bytes option"
  futures :: "'u wait_call list"

text \<open>
  What the module calls but does not define is a parameter: the \<open>h11.Connection\<close>
  (\<open>'p\<close> its state), the collaborator \<open>global_state\<close> (\<open>'g\<close> its state), Python text
  (\<open>'u\<close>) with \<open>bytes.decode('utf-8')\<close> and \<open>int\<close>, and JSON values (\<open>'j\<close>) with
  \<open>json.loads\<close>, \<open>json.dumps(...).encode('utf-8')\<close>, subscription by a key and
  \<open>.encode('utf-8')\<close>. Every call may raise, and a raising call may still have changed
  the state of the object it was called on.
\<close>

record ('p, 'g, 'u, 'j) env =
  receive_data :: "'p \<Rightarrow> bytes \<Rightarrow> exn option \<times> 'p"
  next_event :: "'p \<Rightarrow> (exn + h11_event) \<times> 'p"
  send :: "'p \<Rightarrow> h11_event \<Rightarrow> (exn + bytes) \<times> 'p"
  format_date_time :: bytes
  decode_utf8 :: "bytes \<Rightarrow> exn + 'u"
  py_int :: "'u \<Rightarrow> exn + int"
  json_loads :: "'u \<Rightarrow> exn + 'j"
  json_dumps_utf8 :: "'j \<Rightarrow> exn + bytes"
  getitem :: "'j \<Rightarrow> string \<Rightarrow> exn + 'j"
  encode_utf8 :: "'j \<Rightarrow> exn + bytes"
  get_messages_of_queue :: "'g \<Rightarrow> 'u \<Rightarrow> (exn + 'j option) \<times> 'g"
  get_messages_of_exchange :: "'g \<Rightarrow> 'u \<Rightarrow> (exn + 'j option) \<times> 'g"
  publish_message :: "'g \<Rightarrow> 'u \<Rightarrow> 'j \<Rightarrow> bytes \<Rightarrow> (exn + int option) \<times> 'g"
  delete_messages_of_queue :: "'g \<Rightarrow> 'u \<Rightarrow> exn option \<times> 'g"

section \<open>Helpers of the Python runtime\<close>

definition startswith :: "bytes \<Rightarrow> bytes \<Rightarrow> bool" where
  "startswith s p = (take (length p) s = p)"

text \<open>\<open>s.split(sep, maxsplit=n)\<close> for a one-byte separator.\<close>

fun split_bytes :: "char \<Rightarrow> nat \<Rightarrow> bytes \<Rightarrow> bytes list" where
  "split_bytes sep 0 s = [s]"
| "split_bytes sep (Suc n) s =
     (if sep \<in> set s
      then takeWhile (\<lambda>c. c \<noteq> sep) s # split_bytes sep n (tl (dropWhile (\<lambda>c. c \<noteq> sep) s))
      else [s])"

text \<open>\<open>xs[i]\<close> for \<open>i \<ge> 0\<close>: out of range raises \<open>IndexError\<close>.\<close>

definition list_getitem :: "'a list \<Rightarrow> nat \<Rightarrow> exn + 'a" where
  "list_getitem xs i = (if i < length xs then Inr (xs ! i) else Inl IndexError)"

text \<open>\<open>str(n)\<close> for an integer: decimal digits, with a minus sign when negative.\<close>

fun str_nat :: "nat \<Rightarrow> string" where
  "str_nat n = (if n < 10 then [char_of (48 + n)] else str_nat (n div 10) @ [char_of (48 + n mod 10)])"

definition str_int :: "int \<Rightarrow> string" where
  "str_int i = (if i < 0 then CHR ''-'' # str_nat (nat (- i)) else str_nat (nat i))"

section \<open>The response writer\<close>

definition transport_write :: "bytes \<Rightarrow> ('p, 'g, 'u) HTTPProtocol \<Rightarrow> ('p, 'g, 'u) HTTPProtocol" where
  "transport_write d s = s\<lparr>transport := (transport s)\<lparr>written := written (transport s) @ [d]\<rparr>\<rparr>"

definition transport_close :: "('p, 'g, 'u) HTTPProtocol \<Rightarrow> ('p, 'g, 'u) HTTPProtocol" where
  "transport_close s = s\<lparr>transport := (transport s)\<lparr>closed := True\<rparr>\<rparr>"

text \<open>The \<open>h11.Response\<close> built by \<open>_send_http_response_no_content\<close>.\<close>

definition no_content_response :: "('p, 'g, 'u, 'j) env \<Rightarrow> h11_event" where
  "no_content_response env = Response 204
     [(''Date'', format_date_time env),
      (''Server'', ''whatever''),
      (''Content-Length'', ''0''),
      (''Connection'', ''close'')]"

text \<open>The \<open>h11.Response\<close> built by \<open>_send_http_response_with_body\<close>.\<close>

definition body_response :: "('p, 'g, 'u, 'j) env \<Rightarrow> nat \<Rightarrow> bytes \<Rightarrow> h11_event" where
  "body_response env status_code body = Response status_code
     [(''Date'', format_date_time env),
      (''Server'', ''whatever''),
      (''Content-Length'', str_nat (length body)),
      (''Connection'', ''close'')]"

definition send_http_response_no_content ::
  "('p, 'g, 'u, 'j) env \<Rightarrow> ('p, 'g, 'u) HTTPProtocol \<Rightarrow> exn option \<times> ('p, 'g, 'u) HTTPProtocol" where
  "send_http_response_no_content env s =
     (case send env (http_parser s) (no_content_response env) of
        (Inl e, p1) \<Rightarrow> (Some e, s\<lparr>http_parser := p1\<rparr>)
      | (Inr data, p1) \<Rightarrow> (None, transport_write data (s\<lparr>http_parser := p1\<rparr>)))"

definition send_http_response_with_body ::
  "('p, 'g, 'u, 'j) env \<Rightarrow> ('p, 'g, 'u) HTTPProtocol \<Rightarrow> nat \<Rightarrow> bytes
     \<Rightarrow> exn option \<times> ('p, 'g, 'u) HTTPProtocol" where
  "send_http_response_with_body env s status_code body =
     (case send env (http_parser s) (body_response env status_code body) of
        (Inl e, p1) \<Rightarrow> (Some e, s\<lparr>http_parser := p1\<rparr>)
      | (Inr data, p1) \<Rightarrow>
          (case send env p1 (Data body) of
             (Inl e, p2) \<Rightarrow> (Some e, s\<lparr>http_parser := p2\<rparr>)
           | (Inr body_data, p2) \<Rightarrow>
               (None, transport_write body_data (transport_write data (s\<lparr>http_parser := p2\<rparr>)))))"

definition send_http_response_forbidden ::
  "('p, 'g, 'u, 'j) env \<Rightarrow> ('p, 'g, 'u) HTTPProtocol \<Rightarrow> exn option \<times> ('p, 'g, 'u) HTTPProtocol" where
  "send_http_response_forbidden env s =
     send_http_response_with_body env s 403 (''forbidden'' @ [CHR 0x0A])"

definition send_http_response_timeout ::
  "('p, 'g, 'u, 'j) env \<Rightarrow> ('p, 'g, 'u) HTTPProtocol \<Rightarrow> exn option \<times> ('p, 'g, 'u) HTTPProtocol" where
  "send_http_response_timeout env s =
     send_http_response_with_body env s 504 (''timeout'' @ [CHR 0x0A])"

definition send_http_response_not_found ::
  "('p, 'g, 'u, 'j) env \<Rightarrow> ('p, 'g, 'u) HTTPProtocol \<Rightarrow> exn option \<times> ('p, 'g, 'u) HTTPProtocol" where
  "send_http_response_not_found env s =
     send_http_response_with_body env s 404 (''not found'' @ [CHR 0x0A])"

definition send_http_response_ok ::
  "('p, 'g, 'u, 'j) env \<Rightarrow> ('p, 'g, 'u) HTTPProtocol \<Rightarrow> bytes
     \<Rightarrow> exn option \<times> ('p, 'g, 'u) HTTPProtocol" where
  "send_http_response_ok env s body =
     send_http_response_with_body env s 200 (body @ [CHR 0x0A])"

definition send_http_internal_server_error ::
  "('p, 'g, 'u, 'j) env \<Rightarrow> ('p, 'g, 'u) HTTPProtocol \<Rightarrow> exn option \<times> ('p, 'g, 'u) HTTPProtocol" where
  "send_http_internal_server_error env s =
     send_http_response_with_body env s 500 (''internal server error'' @ [CHR 0x0A])"

section \<open>The handlers\<close>

text \<open>The path prefixes the handlers compare the target with.\<close>

definition route_authentification_done :: bytes where
  "route_authentification_done = ''/authentification-done-with-success-on/''"

definition route_messages_acknowledged :: bytes where
  "route_messages_acknowledged = ''/messages-acknowledged/''"

definition route_messages_in_queue :: bytes where
  "route_messages_in_queue = ''/messages-in-queue/''"

definition route_messages_in_exchange :: bytes where
  "route_messages_in_exchange = ''/messages-in-exchange/''"

definition route_queue_bound_to_exchange :: bytes where
  "route_queue_bound_to_exchange = ''/queue-bound-to-exchange/''"

definition route_add_message_on :: bytes where
  "route_add_message_on = ''/add-message-on/''"

text \<open>
  In \<open>_on_get\<close> the unpacking \<open>_, _, queue, exchange = target.split(b'/', maxsplit=3)\<close>
  raises \<open>ValueError\<close> unless the split has exactly four parts.
\<close>

definition on_get ::
  "('p, 'g, 'u, 'j) env \<Rightarrow> ('p, 'g, 'u) HTTPProtocol \<Rightarrow> bytes
     \<Rightarrow> exn option \<times> ('p, 'g, 'u) HTTPProtocol" where
  "on_get env s tgt =
     (if startswith tgt route_authentification_done then
        (case list_getitem (split_bytes CHR ''/'' 2 tgt) 2 of
           Inl e \<Rightarrow> (Some e, s)
         | Inr username \<Rightarrow>
             (None, s\<lparr>futures := futures s @ [wait_authentication_performed_on username]\<rparr>))
      else if startswith tgt route_messages_acknowledged then
        (case list_getitem (split_bytes CHR ''/'' 2 tgt) 2 of
           Inl e \<Rightarrow> (Some e, s)
         | Inr delivery_tag \<Rightarrow>
             (case decode_utf8 env delivery_tag of
                Inl e \<Rightarrow> (Some e, s)
              | Inr text \<Rightarrow>
                  (case py_int env text of
                     Inl e \<Rightarrow> (Some e, s)
                   | Inr n \<Rightarrow> (None, s\<lparr>futures := futures s @ [wait_message_acknoledged n]\<rparr>))))
      else if startswith tgt route_messages_in_queue then
        (case list_getitem (split_bytes CHR ''/'' 2 tgt) 2 of
           Inl e \<Rightarrow> (Some e, s)
         | Inr queue_name \<Rightarrow>
             (case decode_utf8 env queue_name of
                Inl e \<Rightarrow> (Some e, s)
              | Inr name \<Rightarrow>
                  (case get_messages_of_queue env (global_state s) name of
                     (Inl e, g) \<Rightarrow> (Some e, s\<lparr>global_state := g\<rparr>)
                   | (Inr None, g) \<Rightarrow> send_http_response_not_found env (s\<lparr>global_state := g\<rparr>)
                   | (Inr (Some messages), g) \<Rightarrow>
                       (case json_dumps_utf8 env messages of
                          Inl e \<Rightarrow> (Some e, s\<lparr>global_state := g\<rparr>)
                        | Inr body \<Rightarrow> send_http_response_ok env (s\<lparr>global_state := g\<rparr>) body))))
      else if startswith tgt route_messages_in_exchange then
        (case list_getitem (split_bytes CHR ''/'' 2 tgt) 2 of
           Inl e \<Rightarrow> (Some e, s)
         | Inr exchange_name \<Rightarrow>
             (case decode_utf8 env exchange_name of
                Inl e \<Rightarrow> (Some e, s)
              | Inr name \<Rightarrow>
                  (case get_messages_of_exchange env (global_state s) name of
                     (Inl e, g) \<Rightarrow> (Some e, s\<lparr>global_state := g\<rparr>)
                   | (Inr None, g) \<Rightarrow> send_http_response_not_found env (s\<lparr>global_state := g\<rparr>)
                   | (Inr (Some messages), g) \<Rightarrow>
                       (case json_dumps_utf8 env messages of
                          Inl e \<Rightarrow> (Some e, s\<lparr>global_state := g\<rparr>)
                        | Inr body \<Rightarrow> send_http_response_ok env (s\<lparr>global_state := g\<rparr>) body))))
      else if startswith tgt route_queue_bound_to_exchange then
        (let parts = split_bytes CHR ''/'' 3 tgt in
         if length parts \<noteq> 4 then (Some ValueError, s)
         else
           (case decode_utf8 env (parts ! 2) of
              Inl e \<Rightarrow> (Some e, s)
            | Inr queue \<Rightarrow>
                (case decode_utf8 env (parts ! 3) of
                   Inl e \<Rightarrow> (Some e, s)
                 | Inr exchange \<Rightarrow>
                     (None, s\<lparr>futures := futures s @ [wait_queue_bound queue exchange]\<rparr>))))
      else send_http_response_not_found env s)"

text \<open>
  The arguments of \<open>publish_message\<close> are evaluated left to right, after \<open>json.loads\<close>:
  the exchange name is decoded, then \<open>full_message['headers']\<close> and
  \<open>full_message['body']\<close> are read, then the body is encoded.
\<close>

definition on_post ::
  "('p, 'g, 'u, 'j) env \<Rightarrow> ('p, 'g, 'u) HTTPProtocol \<Rightarrow> bytes \<Rightarrow> bytes
     \<Rightarrow> exn option \<times> ('p, 'g, 'u) HTTPProtocol" where
  "on_post env s tgt data =
     (if startswith tgt route_add_message_on then
        (case list_getitem (split_bytes CHR ''/'' 2 tgt) 2 of
           Inl e \<Rightarrow> (Some e, s)
         | Inr exchange \<Rightarrow>
             (case decode_utf8 env data of
                Inl e \<Rightarrow> (Some e, s)
              | Inr text \<Rightarrow>
             (case json_loads env text of
                Inl e \<Rightarrow> (Some e, s)
              | Inr full_message \<Rightarrow>
             (case decode_utf8 env exchange of
                Inl e \<Rightarrow> (Some e, s)
              | Inr exchange_name \<Rightarrow>
             (case getitem env full_message ''headers'' of
                Inl e \<Rightarrow> (Some e, s)
              | Inr hdrs \<Rightarrow>
             (case getitem env full_message ''body'' of
                Inl e \<Rightarrow> (Some e, s)
              | Inr body_text \<Rightarrow>
             (case encode_utf8 env body_text of
                Inl e \<Rightarrow> (Some e, s)
              | Inr body \<Rightarrow>
             (case publish_message env (global_state s) exchange_name hdrs body of
                (Inl e, g) \<Rightarrow> (Some e, s\<lparr>global_state := g\<rparr>)
              | (Inr None, g) \<Rightarrow> send_http_response_not_found env (s\<lparr>global_state := g\<rparr>)
              | (Inr (Some delivery_tag), g) \<Rightarrow>
                  send_http_response_ok env (s\<lparr>global_state := g\<rparr>) (str_int delivery_tag)))))))))
      else send_http_response_not_found env s)"

definition on_delete ::
  "('p, 'g, 'u, 'j) env \<Rightarrow> ('p, 'g, 'u) HTTPProtocol \<Rightarrow> bytes
     \<Rightarrow> exn option \<times> ('p, 'g, 'u) HTTPProtocol" where
  "on_delete env s tgt =
     (if startswith tgt route_messages_in_queue then
        (case list_getitem (split_bytes CHR ''/'' 2 tgt) 2 of
           Inl e \<Rightarrow> (Some e, s)
         | Inr queue_name \<Rightarrow>
             (case decode_utf8 env queue_name of
                Inl e \<Rightarrow> (Some e, s)
              | Inr name \<Rightarrow>
                  (case delete_messages_of_queue env (global_state s) name of
                     (Some e, g) \<Rightarrow> (Some e, s\<lparr>global_state := g\<rparr>)
                   | (None, g) \<Rightarrow> send_http_response_no_content env (s\<lparr>global_state := g\<rparr>))))
      else send_http_response_not_found env s)"

definition on_put ::
  "('p, 'g, 'u, 'j) env \<Rightarrow> ('p, 'g, 'u) HTTPProtocol \<Rightarrow> bytes option \<Rightarrow> bytes
     \<Rightarrow> exn option \<times> ('p, 'g, 'u) HTTPProtocol" where
  "on_put env s tgt data = send_http_response_not_found env s"

text \<open>
  The done-callback. Whatever the \<open>try\<close> block raises, the result of the future or a
  response writer, is compared with \<open>WaitTimeout\<close>; anything else leaves the callback.
\<close>

definition on_get_done ::
  "('p, 'g, 'u, 'j) env \<Rightarrow> ('p, 'g, 'u) HTTPProtocol \<Rightarrow> future_result
     \<Rightarrow> exn option \<times> ('p, 'g, 'u) HTTPProtocol" where
  "on_get_done env s future =
     (case (case future of
              Raised e \<Rightarrow> (Some e, s)
            | Returned success \<Rightarrow>
                (if \<not> success then send_http_response_forbidden env s
                 else send_http_response_no_content env s)) of
        (None, s1) \<Rightarrow> (None, s1)
      | (Some e, s1) \<Rightarrow>
          (if e = WaitTimeout then send_http_response_timeout env s1 else (Some e, s1)))"

section \<open>The connection state machine\<close>

text \<open>
  One pass through the body of the \<open>while\<close> loop of \<open>_data_received\<close>, for the event just
  drained. A \<open>Request\<close> is looked at only while waiting for headers and a \<open>Data\<close> only
  while waiting for the body; with \<open>_target\<close> unset, \<open>target.startswith\<close> raises
  \<open>AttributeError\<close>.
\<close>

definition process_event ::
  "('p, 'g, 'u, 'j) env \<Rightarrow> ('p, 'g, 'u) HTTPProtocol \<Rightarrow> h11_event
     \<Rightarrow> exn option \<times> ('p, 'g, 'u) HTTPProtocol" where
  "process_event env s event =
     (case event of
        Request m t \<Rightarrow>
          (if state s = WAITING_HEADERS then
             (let s1 = s\<lparr>req_method := Some m, target := Some t\<rparr> in
              if m = ''GET'' then on_get env s1 t
              else if m = ''DELETE'' then on_delete env s1 t
              else if m \<in> set [''POST'', ''PUT''] then (None, s1\<lparr>state := WAITING_BODY\<rparr>)
              else (None, s1))
           else (None, s))
      | Data d \<Rightarrow>
          (if state s = WAITING_BODY then
             (if req_method s = Some ''POST'' then
                (case target s of
                   None \<Rightarrow> (Some AttributeError, s)
                 | Some t \<Rightarrow> on_post env s t d)
              else if req_method s = Some ''PUT'' then on_put env s (target s) d
              else (None, s))
           else (None, s))
      | EndOfMessage \<Rightarrow> (None, s\<lparr>state := WAITING_HEADERS, req_method := None, target := None\<rparr>)
      | _ \<Rightarrow> (None, s))"

text \<open>
  The \<open>while event is not h11.NEED_DATA\<close> loop. It ends when the parser hands out
  \<open>NEED_DATA\<close> or something raises; a parser that never does either keeps it running,
  which is the value \<open>None\<close>.
\<close>

partial_function (option) drain ::
  "('p, 'g, 'u, 'j) env \<Rightarrow> ('p, 'g, 'u) HTTPProtocol
     \<Rightarrow> (exn option \<times> ('p, 'g, 'u) HTTPProtocol) option" where
  "drain env s =
     (case next_event env (http_parser s) of
        (Inl e, p1) \<Rightarrow> Some (Some e, s\<lparr>http_parser := p1\<rparr>)
      | (Inr event, p1) \<Rightarrow>
          (case process_event env (s\<lparr>http_parser := p1\<rparr>) event of
             (Some e, s1) \<Rightarrow> Some (Some e, s1)
           | (None, s1) \<Rightarrow> (if event = NEED_DATA then Some (None, s1) else drain env s1)))"

declare drain.simps [code]

definition data_received_inner ::
  "('p, 'g, 'u, 'j) env \<Rightarrow> ('p, 'g, 'u) HTTPProtocol \<Rightarrow> bytes
     \<Rightarrow> (exn option \<times> ('p, 'g, 'u) HTTPProtocol) option" where
  "data_received_inner env s data =
     (case receive_data env (http_parser s) data of
        (Some e, p1) \<Rightarrow> Some (Some e, s\<lparr>http_parser := p1\<rparr>)
      | (None, p1) \<Rightarrow> drain env (s\<lparr>http_parser := p1\<rparr>))"

text \<open>
  \<open>data_received\<close>: the \<open>except Exception\<close> block runs its three statements in order,
  so an exception of the first one leaves the block before \<open>transport.close()\<close>.
\<close>

definition data_received ::
  "('p, 'g, 'u, 'j) env \<Rightarrow> ('p, 'g, 'u) HTTPProtocol \<Rightarrow> bytes
     \<Rightarrow> (exn option \<times> ('p, 'g, 'u) HTTPProtocol) option" where
  "data_received env s data =
     (case data_received_inner env s data of
        None \<Rightarrow> None
      | Some (None, s1) \<Rightarrow> Some (None, s1)
      | Some (Some e, s1) \<Rightarrow>
          (case send_http_internal_server_error env s1 of
             (Some e2, s2) \<Rightarrow> Some (Some e2, s2)
           | (None, s2) \<Rightarrow> Some (Some e, transport_close s2)))"

section \<open>A scripted environment for concrete runs\<close>

text \<open>
  A stand-in for \<open>h11.Connection\<close>: \<open>next_event\<close> replays a script and then reports
  \<open>NEED_DATA\<close>; \<open>send\<close> follows the sending states of an \<open>h11\<close> server, which takes one
  \<open>Response\<close> and after it only \<open>Data\<close>, and answers anything else with
  \<open>LocalProtocolError\<close>.
\<close>

datatype our_state = SEND_RESPONSE | SEND_BODY | ERROR

record scripted_parser =
  script :: "(exn + h11_event) list"
  our :: our_state

definition crlf :: bytes where
  "crlf = [CHR 0x0D, CHR 0x0A]"

definition serialize_response :: "nat \<Rightarrow> (bytes \<times> bytes) list \<Rightarrow> bytes" where
  "serialize_response status_code hdrs =
     ''HTTP/1.1 '' @ str_nat status_code @ '' '' @ crlf
       @ concat (map (\<lambda>(k, v). k @ '': '' @ v @ crlf) hdrs) @ crlf"

definition scripted_receive_data :: "scripted_parser \<Rightarrow> bytes \<Rightarrow> exn option \<times> scripted_parser" where
  "scripted_receive_data p data = (None, p)"

definition scripted_next_event :: "scripted_parser \<Rightarrow> (exn + h11_event) \<times> scripted_parser" where
  "scripted_next_event p =
     (case script p of
        [] \<Rightarrow> (Inr NEED_DATA, p)
      | r # rs \<Rightarrow> (r, p\<lparr>script := rs\<rparr>))"

definition scripted_send :: "scripted_parser \<Rightarrow> h11_event \<Rightarrow> (exn + bytes) \<times> scripted_parser" where
  "scripted_send p event =
     (case event of
        Response status_code hdrs \<Rightarrow>
          (if our p = SEND_RESPONSE
           then (Inr (serialize_response status_code hdrs), p\<lparr>our := SEND_BODY\<rparr>)
           else (Inl LocalProtocolError, p\<lparr>our := ERROR\<rparr>))
      | Data d \<Rightarrow>
          (if our p = SEND_BODY then (Inr d, p)
           else (Inl LocalProtocolError, p\<lparr>our := ERROR\<rparr>))
      | _ \<Rightarrow> (Inl LocalProtocolError, p\<lparr>our := ERROR\<rparr>))"

text \<open>
  Stand-ins for the text functions, exact on what the concrete runs feed them: ASCII
  bytes decode to themselves, \<open>int\<close> reads a non-empty string of decimal digits.
\<close>

definition ascii_decode :: "bytes \<Rightarrow> exn + string" where
  "ascii_decode b = (if list_all (\<lambda>c. of_char c < (128::nat)) b then Inr b else Inl UnicodeDecodeError)"

definition is_digit :: "char \<Rightarrow> bool" where
  "is_digit c = (48 \<le> (of_char c :: nat) \<and> (of_char c :: nat) \<le> 57)"

definition nat_of_decimal :: "string \<Rightarrow> nat option" where
  "nat_of_decimal ds =
     (if ds \<noteq> [] \<and> list_all is_digit ds
      then Some (foldl (\<lambda>acc c. 10 * acc + (of_char c - 48)) 0 ds)
      else None)"

definition decimal_int :: "string \<Rightarrow> exn + int" where
  "decimal_int u = (case nat_of_decimal u of None \<Rightarrow> Inl ValueError | Some n \<Rightarrow> Inr (int n))"

text \<open>
  JSON values, with \<open>json.loads\<close> as a table of the texts the runs use (any other text
  is rejected) and \<open>json.dumps\<close> on lists of strings.
\<close>

datatype json = JStr string | JArr "json list" | JObj "(string \<times> json) list"

definition json_table :: "(string \<times> json) list" where
  "json_table =
     [(''{\"headers\": {}, \"body\": \"hi\"}'', JObj [(''headers'', JObj []), (''body'', JStr ''hi'')])]"

definition table_loads :: "string \<Rightarrow> exn + json" where
  "table_loads u = (case map_of json_table u of None \<Rightarrow> Inl JSONDecodeError | Some j \<Rightarrow> Inr j)"

fun dumps_item :: "json \<Rightarrow> exn + string" where
  "dumps_item (JStr x) = Inr ([CHR 0x22] @ x @ [CHR 0x22])"
| "dumps_item _ = Inl TypeError"

fun join_items :: "json list \<Rightarrow> exn + string" where
  "join_items [] = Inr []"
| "join_items [x] = dumps_item x"
| "join_items (x # xs) =
     (case dumps_item x of
        Inl e \<Rightarrow> Inl e
      | Inr a \<Rightarrow> (case join_items xs of Inl e \<Rightarrow> Inl e | Inr b \<Rightarrow> Inr (a @ '', '' @ b)))"

definition list_dumps :: "json \<Rightarrow> exn + bytes" where
  "list_dumps j =
     (case j of
        JArr xs \<Rightarrow> (case join_items xs of Inl e \<Rightarrow> Inl e | Inr a \<Rightarrow> Inr (''['' @ a @ '']''))
      | _ \<Rightarrow> dumps_item j)"

definition json_getitem :: "json \<Rightarrow> string \<Rightarrow> exn + json" where
  "json_getitem j k =
     (case j of
        JObj kvs \<Rightarrow> (case map_of kvs k of None \<Rightarrow> Inl KeyError | Some v \<Rightarrow> Inr v)
      | _ \<Rightarrow> Inl TypeError)"

definition json_encode :: "json \<Rightarrow> exn + bytes" where
  "json_encode j = (case j of JStr x \<Rightarrow> Inr x | _ \<Rightarrow> Inl AttributeError)"

text \<open>A small broker as collaborator: named queues and exchanges, and a tag counter.\<close>

record broker =
  queues :: "(string \<times> json) list"
  exchanges :: "(string \<times> json) list"
  published :: "(string \<times> json \<times> bytes) list"
  next_tag :: int

definition broker_get_messages_of_queue :: "broker \<Rightarrow> string \<Rightarrow> (exn + json option) \<times> broker" where
  "broker_get_messages_of_queue g name = (Inr (map_of (queues g) name), g)"

definition broker_get_messages_of_exchange :: "broker \<Rightarrow> string \<Rightarrow> (exn + json option) \<times> broker" where
  "broker_get_messages_of_exchange g name = (Inr (map_of (exchanges g) name), g)"

definition broker_publish_message ::
  "broker \<Rightarrow> string \<Rightarrow> json \<Rightarrow> bytes \<Rightarrow> (exn + int option) \<times> broker" where
  "broker_publish_message g name hdrs body =
     (case map_of (exchanges g) name of
        None \<Rightarrow> (Inr None, g)
      | Some m \<Rightarrow>
          (Inr (Some (next_tag g)),
           g\<lparr>published := published g @ [(name, hdrs, body)], next_tag := next_tag g + 1\<rparr>))"

definition broker_delete_messages_of_queue :: "broker \<Rightarrow> string \<Rightarrow> exn option \<times> broker" where
  "broker_delete_messages_of_queue g name =
     (None, g\<lparr>queues := map (\<lambda>(n, m). if n = name then (n, JArr []) else (n, m)) (queues g)\<rparr>)"

definition test_env :: "(scripted_parser, broker, string, json) env" where
  "test_env =
     \<lparr>receive_data = scripted_receive_data,
      next_event = scripted_next_event,
      send = scripted_send,
      format_date_time = ''Thu, 01 Jan 1970 00:00:00 GMT'',
      decode_utf8 = ascii_decode,
      py_int = decimal_int,
      json_loads = table_loads,
      json_dumps_utf8 = list_dumps,
      getitem = json_getitem,
      encode_utf8 = json_encode,
      get_messages_of_queue = broker_get_messages_of_queue,
      get_messages_of_exchange = broker_get_messages_of_exchange,
      publish_message = broker_publish_message,
      delete_messages_of_queue = broker_delete_messages_of_queue\<rparr>"

definition test_broker :: broker where
  "test_broker =
     \<lparr>queues = [(''q1'', JArr [JStr ''m1''])],
      exchanges = [(''E'', JArr [])],
      published = [],
      next_tag = 1\<rparr>"

text \<open>A fresh connection whose parser will hand out the given events.\<close>

definition conn :: "(exn + h11_event) list \<Rightarrow> (scripted_parser, broker, string) HTTPProtocol" where
  "conn evs =
     \<lparr>transport = \<lparr>written = [], closed = False\<rparr>,
      global_state = test_broker,
      http_parser = \<lparr>script = evs, our = SEND_RESPONSE\<rparr>,
      state = WAITING_HEADERS,
      req_method = None,
      target = None,
      futures = []\<rparr>"

section \<open>What the transport gets for one response\<close>

text \<open>
  The chunks that reach the transport when the parser accepts this \<open>Response\<close>,
  followed by one \<open>Data\<close> with the body if there is one, together with the parser
  afterwards; \<open>None\<close> when the parser rejects either of them.
\<close>

definition response_chunks ::
  "('p, 'g, 'u, 'j) env \<Rightarrow> 'p \<Rightarrow> h11_event \<Rightarrow> bytes option \<Rightarrow> (bytes list \<times> 'p) option" where
  "response_chunks env p response body =
     (case send env p response of
        (Inl e, p1) \<Rightarrow> None
      | (Inr d, p1) \<Rightarrow>
          (case body of
             None \<Rightarrow> Some ([d], p1)
           | Some payload \<Rightarrow>
               (case send env p1 (Data payload) of
                  (Inl e, p2) \<Rightarrow> None
                | (Inr b, p2) \<Rightarrow> Some ([d, b], p2))))"

text \<open>The connection after these chunks went to the transport and the parser moved on.\<close>

definition deliver ::
  "('p, 'g, 'u) HTTPProtocol \<Rightarrow> bytes list \<Rightarrow> 'p \<Rightarrow> ('p, 'g, 'u) HTTPProtocol" where
  "deliver s chunks p =
     s\<lparr>http_parser := p, transport := (transport s)\<lparr>written := written (transport s) @ chunks\<rparr>\<rparr>"

definition header_names :: "h11_event \<Rightarrow> bytes list" where
  "header_names event = (case event of Response status_code hdrs \<Rightarrow> map fst hdrs | _ \<Rightarrow> [])"

definition header_value :: "h11_event \<Rightarrow> bytes \<Rightarrow> bytes option" where
  "header_value event name =
     (case event of Response status_code hdrs \<Rightarrow> map_of hdrs name | _ \<Rightarrow> None)"

definition status_of :: "h11_event \<Rightarrow> nat option" where
  "status_of event = (case event of Response status_code hdrs \<Rightarrow> Some status_code | _ \<Rightarrow> None)"

definition body_length :: "bytes option \<Rightarrow> nat" where
  "body_length body = (case body of None \<Rightarrow> 0 | Some payload \<Rightarrow> length payload)"

text \<open>
  The targets \<open>_on_get\<close> answers by scheduling a wait, in the order of its tests: the
  test for the binding route comes after the two tests for the listing routes.
\<close>

definition is_deferred_route :: "bytes \<Rightarrow> bool" where
  "is_deferred_route tgt =
     (startswith tgt route_authentification_done
      \<or> startswith tgt route_messages_acknowledged
      \<or> (\<not> startswith tgt route_messages_in_queue
          \<and> \<not> startswith tgt route_messages_in_exchange
          \<and> startswith tgt route_queue_bound_to_exchange))"

section \<open>Decimal rendering\<close>

lemma is_digit_char_of: "(d::nat) < 10 \<Longrightarrow> is_digit (char_of (48 + d))"
  by (simp add: is_digit_def)

lemma digit_value: "d < 10 \<Longrightarrow> (of_char (char_of (48 + d :: nat)) :: nat) - 48 = d"
  by simp

lemma str_nat_digits: "list_all is_digit (str_nat n) \<and> str_nat n \<noteq> []"
proof (induction n rule: str_nat.induct)
  case (1 n)
  show ?case
  proof (cases "n < 10")
    case True
    then show ?thesis by (subst str_nat.simps, subst (2) str_nat.simps) (simp add: is_digit_char_of)
  next
    case False
    with 1 show ?thesis
      by (subst str_nat.simps, subst (2) str_nat.simps) (simp add: is_digit_char_of)
  qed
qed

lemma str_nat_value: "foldl (\<lambda>acc c. 10 * acc + (of_char c - 48)) 0 (str_nat n) = n"
proof (induction n rule: str_nat.induct)
  case (1 n)
  show ?case
  proof (cases "n < 10")
    case True
    then show ?thesis by (subst str_nat.simps) simp
  next
    case False
    with 1 have "foldl (\<lambda>acc c. 10 * acc + (of_char c - 48)) 0 (str_nat (n div 10)) = n div 10"
      by simp
    with False show ?thesis
      by (subst str_nat.simps) simp
  qed
qed

lemma nat_of_decimal_str_nat: "nat_of_decimal (str_nat n) = Some n"
  using str_nat_digits [of n] str_nat_value [of n] by (simp add: nat_of_decimal_def)

section \<open>What the handlers leave alone\<close>

lemmas writer_defs =
  send_http_response_forbidden_def send_http_response_timeout_def
  send_http_response_not_found_def send_http_response_ok_def
  send_http_internal_server_error_def

lemma with_body_keeps:
  "state (snd (send_http_response_with_body env s st b)) = state s"
  "req_method (snd (send_http_response_with_body env s st b)) = req_method s"
  "target (snd (send_http_response_with_body env s st b)) = target s"
  "global_state (snd (send_http_response_with_body env s st b)) = global_state s"
  "futures (snd (send_http_response_with_body env s st b)) = futures s"
  "closed (transport (snd (send_http_response_with_body env s st b))) = closed (transport s)"
  by (simp_all add: send_http_response_with_body_def transport_write_def
      split: prod.splits sum.splits)

lemma no_content_keeps:
  "state (snd (send_http_response_no_content env s)) = state s"
  "req_method (snd (send_http_response_no_content env s)) = req_method s"
  "target (snd (send_http_response_no_content env s)) = target s"
  "global_state (snd (send_http_response_no_content env s)) = global_state s"
  "futures (snd (send_http_response_no_content env s)) = futures s"
  "closed (transport (snd (send_http_response_no_content env s))) = closed (transport s)"
  by (simp_all add: send_http_response_no_content_def transport_write_def
      split: prod.splits sum.splits)

lemma on_get_state: "state (snd (on_get env s t)) = state s"
  by (simp add: on_get_def Let_def writer_defs with_body_keeps
      split: prod.split sum.split option.split)

lemma on_delete_state: "state (snd (on_delete env s t)) = state s"
  by (simp add: on_delete_def writer_defs with_body_keeps no_content_keeps
      split: prod.split sum.split option.split)

lemma on_post_state: "state (snd (on_post env s t d)) = state s"
  by (simp add: on_post_def writer_defs with_body_keeps
      split: prod.split sum.split option.split)

lemma on_put_state: "state (snd (on_put env s t d)) = state s"
  by (simp add: on_put_def writer_defs with_body_keeps)

lemma process_event_body_phase:
  "event \<noteq> EndOfMessage \<Longrightarrow> state s = WAITING_BODY
     \<Longrightarrow> state (snd (process_event env s event)) = WAITING_BODY"
  by (cases event)
     (simp_all add: process_event_def on_post_state on_put_state split: option.splits)

text \<open>
  C6. Processing an end-of-message event, in either phase, sets the phase to
  \<open>WAITING_HEADERS\<close> and clears the stored method and target. No other event brings the
  phase back from \<open>WAITING_BODY\<close>. A \<open>GET\<close> or \<open>DELETE\<close> request event leaves the phase as
  it is, and while waiting for headers it is dispatched to its handler; after a \<open>POST\<close>
  or \<open>PUT\<close> request event the phase is \<open>WAITING_BODY\<close>.
\<close>

theorem end_of_message_is_the_only_reset:
  "process_event env s EndOfMessage
     = (None, s\<lparr>state := WAITING_HEADERS, req_method := None, target := None\<rparr>)
   \<and> (event \<noteq> EndOfMessage \<and> state s = WAITING_BODY
        \<longrightarrow> state (snd (process_event env s event)) = WAITING_BODY)
   \<and> (m1 = ''GET'' \<or> m1 = ''DELETE''
        \<longrightarrow> state (snd (process_event env s (Request m1 t))) = state s)
   \<and> (state s = WAITING_HEADERS
        \<longrightarrow> process_event env s (Request ''GET'' t)
              = on_get env (s\<lparr>req_method := Some ''GET'', target := Some t\<rparr>) t
          \<and> process_event env s (Request ''DELETE'' t)
              = on_delete env (s\<lparr>req_method := Some ''DELETE'', target := Some t\<rparr>) t)
   \<and> (m2 = ''POST'' \<or> m2 = ''PUT''
        \<longrightarrow> state (snd (process_event env s (Request m2 t))) = WAITING_BODY)"
proof -
  have reset: "process_event env s EndOfMessage
     = (None, s\<lparr>state := WAITING_HEADERS, req_method := None, target := None\<rparr>)"
    by (simp add: process_event_def)
  have keep: "m1 = ''GET'' \<or> m1 = ''DELETE''
        \<longrightarrow> state (snd (process_event env s (Request m1 t))) = state s"
    by (auto simp add: process_event_def Let_def on_get_state on_delete_state)
  have dispatch: "state s = WAITING_HEADERS
        \<longrightarrow> process_event env s (Request ''GET'' t)
              = on_get env (s\<lparr>req_method := Some ''GET'', target := Some t\<rparr>) t
          \<and> process_event env s (Request ''DELETE'' t)
              = on_delete env (s\<lparr>req_method := Some ''DELETE'', target := Some t\<rparr>) t"
    by (simp add: process_event_def Let_def)
  have body: "m2 = ''POST'' \<or> m2 = ''PUT''
        \<longrightarrow> state (snd (process_event env s (Request m2 t))) = WAITING_BODY"
    by (cases "state s") (auto simp add: process_event_def Let_def)
  from reset keep dispatch body process_event_body_phase [of event s env]
  show ?thesis by blast
qed


theorem end_of_message_is_the_only_reset_witness:
  "Data ''x'' \<noteq> EndOfMessage
   \<and> state ((conn [])\<lparr>state := WAITING_BODY\<rparr>) = WAITING_BODY
   \<and> state (snd (process_event test_env ((conn [])\<lparr>state := WAITING_BODY\<rparr>) (Data ''x''))) = WAITING_BODY
   \<and> state (snd (process_event test_env ((conn [])\<lparr>state := WAITING_BODY\<rparr>) (Request ''GET'' ''/nope'')))
       = WAITING_BODY
   \<and> state (snd (process_event test_env ((conn [])\<lparr>state := WAITING_BODY\<rparr>) (Request ''PUT'' ''/nope'')))
       = WAITING_BODY"
  using end_of_message_is_the_only_reset
    [of test_env "(conn [])\<lparr>state := WAITING_BODY\<rparr>" "Data ''x''" "''GET''" "''/nope''" "''PUT''"]
  by (simp add: conn_def)

section \<open>The response writers and the parser\<close>

lemma with_body_accepted:
  "response_chunks env (http_parser s) (body_response env st body) (Some body) = Some (cs, p)
     \<Longrightarrow> send_http_response_with_body env s st body = (None, deliver s cs p)"
  by (auto simp add: response_chunks_def send_http_response_with_body_def deliver_def
      transport_write_def split: prod.splits sum.splits)

lemma with_body_returns:
  "send_http_response_with_body env s st body = (None, s')
     \<Longrightarrow> \<exists>cs p. response_chunks env (http_parser s) (body_response env st body) (Some body)
                  = Some (cs, p) \<and> s' = deliver s cs p"
  by (auto simp add: response_chunks_def send_http_response_with_body_def deliver_def
      transport_write_def split: prod.splits sum.splits)

lemma no_content_accepted:
  "response_chunks env (http_parser s) (no_content_response env) None = Some (cs, p)
     \<Longrightarrow> send_http_response_no_content env s = (None, deliver s cs p)"
  by (auto simp add: response_chunks_def send_http_response_no_content_def deliver_def
      transport_write_def split: prod.splits sum.splits)

lemma no_content_returns:
  "send_http_response_no_content env s = (None, s')
     \<Longrightarrow> \<exists>cs p. response_chunks env (http_parser s) (no_content_response env) None
                  = Some (cs, p) \<and> s' = deliver s cs p"
  by (auto simp add: response_chunks_def send_http_response_no_content_def deliver_def
      transport_write_def split: prod.splits sum.splits)

text \<open>
  C1. In the done-callback of a deferred wait: when the future returned true and the
  parser accepts the 204 response, exactly that response is written; when it returned
  false, exactly the 403 response with body \<open>forbidden\<close> and a newline; when it raised
  \<open>WaitTimeout\<close>, exactly the 504 response with body \<open>timeout\<close> and a newline. The
  callback returns normally in all three cases.
\<close>

theorem on_get_done_status_mapping:
  "(response_chunks env (http_parser s) (no_content_response env) None = Some (cs1, p1)
      \<longrightarrow> status_of (no_content_response env) = Some 204
        \<and> on_get_done env s (Returned True) = (None, deliver s cs1 p1))
   \<and> (response_chunks env (http_parser s) (body_response env 403 (''forbidden'' @ [CHR 0x0A]))
         (Some (''forbidden'' @ [CHR 0x0A])) = Some (cs2, p2)
      \<longrightarrow> on_get_done env s (Returned False) = (None, deliver s cs2 p2))
   \<and> (response_chunks env (http_parser s) (body_response env 504 (''timeout'' @ [CHR 0x0A]))
         (Some (''timeout'' @ [CHR 0x0A])) = Some (cs3, p3)
      \<longrightarrow> on_get_done env s (Raised WaitTimeout) = (None, deliver s cs3 p3))"
proof (intro conjI impI)
  assume "response_chunks env (http_parser s) (no_content_response env) None = Some (cs1, p1)"
  then show "on_get_done env s (Returned True) = (None, deliver s cs1 p1)"
    by (simp add: on_get_done_def no_content_accepted)
next
  assume "response_chunks env (http_parser s) (body_response env 403 (''forbidden'' @ [CHR 0x0A]))
         (Some (''forbidden'' @ [CHR 0x0A])) = Some (cs2, p2)"
  then show "on_get_done env s (Returned False) = (None, deliver s cs2 p2)"
    by (simp add: on_get_done_def send_http_response_forbidden_def with_body_accepted)
next
  assume "response_chunks env (http_parser s) (body_response env 504 (''timeout'' @ [CHR 0x0A]))
         (Some (''timeout'' @ [CHR 0x0A])) = Some (cs3, p3)"
  then show "on_get_done env s (Raised WaitTimeout) = (None, deliver s cs3 p3)"
    by (simp add: on_get_done_def send_http_response_timeout_def with_body_accepted)
next
  show "status_of (no_content_response env) = Some 204"
    by (simp add: status_of_def no_content_response_def)
qed


theorem on_get_done_status_mapping_witness:
  "response_chunks test_env (http_parser (conn [])) (no_content_response test_env) None
     = Some ([serialize_response 204
                [(''Date'', ''Thu, 01 Jan 1970 00:00:00 GMT''), (''Server'', ''whatever''),
                 (''Content-Length'', ''0''), (''Connection'', ''close'')]],
             \<lparr>script = [], our = SEND_BODY\<rparr>)
   \<and> on_get_done test_env (conn []) (Returned True)
     = (None, deliver (conn [])
                [serialize_response 204
                   [(''Date'', ''Thu, 01 Jan 1970 00:00:00 GMT''), (''Server'', ''whatever''),
                    (''Content-Length'', ''0''), (''Connection'', ''close'')]]
                \<lparr>script = [], our = SEND_BODY\<rparr>)
   \<and> response_chunks test_env (http_parser (conn []))
         (body_response test_env 403 (''forbidden'' @ [CHR 0x0A])) (Some (''forbidden'' @ [CHR 0x0A]))
     = Some ([serialize_response 403
                [(''Date'', ''Thu, 01 Jan 1970 00:00:00 GMT''), (''Server'', ''whatever''),
                 (''Content-Length'', str_nat 10), (''Connection'', ''close'')],
              ''forbidden'' @ [CHR 0x0A]],
             \<lparr>script = [], our = SEND_BODY\<rparr>)
   \<and> on_get_done test_env (conn []) (Returned False)
     = (None, deliver (conn [])
                [serialize_response 403
                   [(''Date'', ''Thu, 01 Jan 1970 00:00:00 GMT''), (''Server'', ''whatever''),
                    (''Content-Length'', str_nat 10), (''Connection'', ''close'')],
                 ''forbidden'' @ [CHR 0x0A]]
                \<lparr>script = [], our = SEND_BODY\<rparr>)
   \<and> response_chunks test_env (http_parser (conn []))
         (body_response test_env 504 (''timeout'' @ [CHR 0x0A])) (Some (''timeout'' @ [CHR 0x0A]))
     = Some ([serialize_response 504
                [(''Date'', ''Thu, 01 Jan 1970 00:00:00 GMT''), (''Server'', ''whatever''),
                 (''Content-Length'', str_nat 8), (''Connection'', ''close'')],
              ''timeout'' @ [CHR 0x0A]],
             \<lparr>script = [], our = SEND_BODY\<rparr>)
   \<and> on_get_done test_env (conn []) (Raised WaitTimeout)
     = (None, deliver (conn [])
                [serialize_response 504
                   [(''Date'', ''Thu, 01 Jan 1970 00:00:00 GMT''), (''Server'', ''whatever''),
                    (''Content-Length'', str_nat 8), (''Connection'', ''close'')],
                 ''timeout'' @ [CHR 0x0A]]
                \<lparr>script = [], our = SEND_BODY\<rparr>)"
proof -
  have h1: "response_chunks test_env (http_parser (conn [])) (no_content_response test_env) None
     = Some ([serialize_response 204
                [(''Date'', ''Thu, 01 Jan 1970 00:00:00 GMT''), (''Server'', ''whatever''),
                 (''Content-Length'', ''0''), (''Connection'', ''close'')]],
             \<lparr>script = [], our = SEND_BODY\<rparr>)"
    by (simp add: response_chunks_def conn_def test_env_def scripted_send_def
        no_content_response_def)
  have h2: "response_chunks test_env (http_parser (conn []))
         (body_response test_env 403 (''forbidden'' @ [CHR 0x0A])) (Some (''forbidden'' @ [CHR 0x0A]))
     = Some ([serialize_response 403
                [(''Date'', ''Thu, 01 Jan 1970 00:00:00 GMT''), (''Server'', ''whatever''),
                 (''Content-Length'', str_nat 10), (''Connection'', ''close'')],
              ''forbidden'' @ [CHR 0x0A]],
             \<lparr>script = [], our = SEND_BODY\<rparr>)"
    by (simp add: response_chunks_def conn_def test_env_def scripted_send_def
        body_response_def)
  have h3: "response_chunks test_env (http_parser (conn []))
         (body_response test_env 504 (''timeout'' @ [CHR 0x0A])) (Some (''timeout'' @ [CHR 0x0A]))
     = Some ([serialize_response 504
                [(''Date'', ''Thu, 01 Jan 1970 00:00:00 GMT''), (''Server'', ''whatever''),
                 (''Content-Length'', str_nat 8), (''Connection'', ''close'')],
              ''timeout'' @ [CHR 0x0A]],
             \<lparr>script = [], our = SEND_BODY\<rparr>)"
    by (simp add: response_chunks_def conn_def test_env_def scripted_send_def
        body_response_def)
  from h1 h2 h3 on_get_done_status_mapping [of test_env "conn []" _ _ _ _ _ _]
  show ?thesis by blast
qed


section \<open>Failures of a deferred wait\<close>

text \<open>
  C9 (as amended). A wait that fails with anything other than \<open>WaitTimeout\<close> leaves the
  done-callback as an unhandled error, and the callback leaves the connection as it
  was: it writes no response and does not close the transport. The callback returns
  normally only for a result of true, a result of false, or \<open>WaitTimeout\<close>.
\<close>

theorem on_get_done_other_failure_leaves:
  "(e \<noteq> WaitTimeout \<longrightarrow> on_get_done env s (Raised e) = (Some e, s))
   \<and> (fst (on_get_done env s fut) = None
        \<longrightarrow> fut = Returned True \<or> fut = Returned False \<or> fut = Raised WaitTimeout)"
proof -
  have a: "e \<noteq> WaitTimeout \<longrightarrow> on_get_done env s (Raised e) = (Some e, s)"
    by (simp add: on_get_done_def)
  have b: "fst (on_get_done env s fut) = None
        \<longrightarrow> fut = Returned True \<or> fut = Returned False \<or> fut = Raised WaitTimeout"
  proof (cases fut)
    case (Returned x)
    then show ?thesis by (cases x) simp_all
  next
    case (Raised x)
    then show ?thesis by (cases "x = WaitTimeout") (simp_all add: on_get_done_def)
  qed
  from a b show ?thesis by blast
qed

theorem on_get_done_other_failure_leaves_witness:
  "RuntimeError \<noteq> WaitTimeout
   \<and> on_get_done test_env (conn []) (Raised RuntimeError) = (Some RuntimeError, conn [])
   \<and> fst (on_get_done test_env (conn []) (Returned True)) = None"
proof -
  have h: "fst (on_get_done test_env (conn []) (Returned True)) = None"
    by (simp add: on_get_done_def send_http_response_no_content_def test_env_def conn_def
        scripted_send_def no_content_response_def)
  from h on_get_done_other_failure_leaves [of RuntimeError test_env "conn []" "Returned True"]
  show ?thesis by simp
qed

text \<open>
  C9 as stated does not hold: a wait failing with \<open>RuntimeError\<close> on a fresh connection
  leaves the callback with nothing written and the transport open.
\<close>

theorem failed_wait_gets_no_500_counterexample:
  "on_get_done test_env (conn []) (Raised RuntimeError) = (Some RuntimeError, conn [])
   \<and> written (transport (conn [])) = []
   \<and> \<not> closed (transport (conn []))"
  by (simp add: on_get_done_def conn_def)


end
